theory Spec2Isabelle
  imports Main "HOL-Library.AList"
begin

section \<open>Python values, declared resources and the declaration state\<close>

text \<open>
  The program is a Pulumi configuration program: every builder function constructs
  provider resources (\<^verbatim>\<open>aws.ec2.Vpc(name, **kwargs)\<close> and the like), and constructing
  a resource registers it with the engine. The model keeps the list of resources
  registered so far, in registration order, as the state that every function threads.

  Keyword arguments are Python values. \<open>VOut t n a\<close> is the deferred attribute \<open>a\<close>
  (for instance \<^verbatim>\<open>.id\<close>) of the resource of type \<open>t\<close> with logical name \<open>n\<close>, that
  is, a \<^verbatim>\<open>pulumi.Output\<close>. A dict is an association list in insertion order.
\<close>

datatype resource_type =
    Vpc | Subnet | InternetGateway | RouteTable | Route | RouteTableAssociation
  | TransitGateway | VpcAttachment | TransitGatewayRoute | SecurityGroup | Instance

datatype pval =
    VNone
  | VStr string
  | VInt int
  | VBool bool
  | VOut resource_type string string
  | VList "pval list"
  | VDict "(string \<times> pval) list"

text \<open>
  Python truthiness, as used by \<^verbatim>\<open>if x:\<close>, \<^verbatim>\<open>x or y\<close> and \<^verbatim>\<open>not x\<close>: \<^verbatim>\<open>None\<close>, the
  empty string, zero, \<^verbatim>\<open>False\<close> and empty containers are false; an Output is an
  ordinary object and therefore true.
\<close>

fun truthy :: "pval \<Rightarrow> bool" where
  "truthy VNone = False"
| "truthy (VStr s) = (s \<noteq> [])"
| "truthy (VInt i) = (i \<noteq> 0)"
| "truthy (VBool b) = b"
| "truthy (VOut t n a) = True"
| "truthy (VList xs) = (xs \<noteq> [])"
| "truthy (VDict kvs) = (kvs \<noteq> [])"

type_synonym pydict = "(string \<times> pval) list"

text \<open>
  \<^verbatim>\<open>{**d1, **d2}\<close>: the entries of \<open>d2\<close> are stored into \<open>d1\<close> one after the other; a
  key already present keeps its position and takes the new value, a new key is appended.
\<close>

definition dict_union :: "pydict \<Rightarrow> pydict \<Rightarrow> pydict" where
  "dict_union d1 d2 = foldl (\<lambda>d kv. AList.update (fst kv) (snd kv) d) d1 d2"

record resource =
  res_type :: resource_type
  res_name :: string
  res_args :: pydict

type_synonym state = "resource list"

datatype error = ValueError string | IndexError

type_synonym 'a result = "(error + 'a) \<times> state"

text \<open>The \<^verbatim>\<open>.id\<close> attribute of a declared resource.\<close>

definition res_id :: "resource \<Rightarrow> pval" where
  "res_id r = VOut (res_type r) (res_name r) ''id''"

text \<open>Looking a keyword argument of a declared resource up (\<open>None\<close>: it was not passed).\<close>

definition arg :: "resource \<Rightarrow> string \<Rightarrow> pval option" where
  "arg r k = map_of (res_args r) k"

text \<open>Constructing a resource registers it and returns it.\<close>

definition new_resource :: "resource_type \<Rightarrow> string \<Rightarrow> pydict \<Rightarrow> state \<Rightarrow> resource result" where
  "new_resource t n args st =
     (let r = \<lparr>res_type = t, res_name = n, res_args = args\<rparr> in (Inr r, st @ [r]))"

text \<open>Sequencing: an exception ends the pass, with the resources declared until then.\<close>

definition bind :: "'a result \<Rightarrow> ('a \<Rightarrow> state \<Rightarrow> 'b result) \<Rightarrow> 'b result" where
  "bind m f = (case m of (Inl e, st) \<Rightarrow> (Inl e, st) | (Inr a, st) \<Rightarrow> f a st)"

text \<open>\<^verbatim>\<open>xs[i]\<close> for a non-negative literal index.\<close>

definition index :: "'a list \<Rightarrow> nat \<Rightarrow> state \<Rightarrow> 'a result" where
  "index xs i st = (if i < length xs then (Inr (xs ! i), st) else (Inl IndexError, st))"

text \<open>\<^verbatim>\<open>str(i)\<close> of a non-negative integer, as an f-string renders it.\<close>

definition digit :: "nat \<Rightarrow> char" where
  "digit d = char_of (48 + d)"

function str_nat :: "nat \<Rightarrow> string" where
  "str_nat n = (if n < 10 then [digit n] else str_nat (n div 10) @ [digit (n mod 10)])"
  by pat_completeness auto
termination
  by (relation "measure id") auto

text \<open>\<^verbatim>\<open>tags\<close> parameters are \<^verbatim>\<open>Optional[dict]\<close>.\<close>

definition tags_or_empty :: "pydict option \<Rightarrow> pydict" where
  "tags_or_empty tags = (case tags of None \<Rightarrow> [] | Some d \<Rightarrow> d)"

section \<open>vpc.py\<close>

text \<open>
  \<^verbatim>\<open>create_vpc\<close>: the CIDR block is rejected with a \<^verbatim>\<open>ValueError\<close> when it is empty or
  has no slash; the check comes before the resource is constructed.
\<close>

definition create_vpc ::
  "string \<Rightarrow> string \<Rightarrow> bool \<Rightarrow> bool \<Rightarrow> pydict option \<Rightarrow> state \<Rightarrow> resource result" where
  "create_vpc name cidr_block enable_dns_hostnames enable_dns_support tags st =
     (let tags = tags_or_empty tags in
      if cidr_block = [] \<or> CHR ''/'' \<notin> set cidr_block
      then (Inl (ValueError (''Invalid CIDR block: '' @ cidr_block)), st)
      else new_resource Vpc name
             [(''cidr_block'', VStr cidr_block),
              (''enable_dns_hostnames'', VBool enable_dns_hostnames),
              (''enable_dns_support'', VBool enable_dns_support),
              (''tags'', VDict (dict_union [(''Name'', VStr name)] tags))] st)"

section \<open>networking.py\<close>

text \<open>
  \<^verbatim>\<open>create_subnets\<close>: the loop runs over \<^verbatim>\<open>enumerate(zip(cidr_blocks, availability_zones))\<close>;
  the recursion below carries the running index \<open>i\<close>, the rest of the zipped list, the
  list \<^verbatim>\<open>subnets\<close> built so far, and the state.
\<close>

fun create_subnets_loop ::
  "string \<Rightarrow> pval \<Rightarrow> bool \<Rightarrow> pydict \<Rightarrow> nat \<Rightarrow> (string \<times> string) list \<Rightarrow> resource list
     \<Rightarrow> state \<Rightarrow> (resource list) result" where
  "create_subnets_loop name_prefix vpc_id public tags i [] subnets st = (Inr subnets, st)"
| "create_subnets_loop name_prefix vpc_id public tags i ((cidr, az) # rest) subnets st =
     bind (new_resource Subnet (name_prefix @ ''-'' @ str_nat i)
             [(''vpc_id'', vpc_id),
              (''cidr_block'', VStr cidr),
              (''availability_zone'', VStr az),
              (''map_public_ip_on_launch'', VBool public),
              (''tags'', VDict (dict_union
                  [(''Name'', VStr (name_prefix @ ''-'' @ str_nat i))] tags))] st)
       (\<lambda>subnet st.
          create_subnets_loop name_prefix vpc_id public tags (Suc i) rest
            (subnets @ [subnet]) st)"

definition create_subnets ::
  "string \<Rightarrow> pval \<Rightarrow> string list \<Rightarrow> string list \<Rightarrow> bool \<Rightarrow> pydict option \<Rightarrow> state
     \<Rightarrow> (resource list) result" where
  "create_subnets name_prefix vpc_id cidr_blocks availability_zones public tags st =
     (let tags = tags_or_empty tags in
      create_subnets_loop name_prefix vpc_id public tags 0
        (zip cidr_blocks availability_zones) [] st)"

definition create_internet_gateway ::
  "string \<Rightarrow> pval \<Rightarrow> pydict option \<Rightarrow> state \<Rightarrow> resource result" where
  "create_internet_gateway name vpc_id tags st =
     (let tags = tags_or_empty tags in
      new_resource InternetGateway name
        [(''vpc_id'', vpc_id),
         (''tags'', VDict (dict_union [(''Name'', VStr name)] tags))] st)"

text \<open>\<^verbatim>\<open>create_route_tables\<close>: \<^verbatim>\<open>range(count)\<close> is empty for a count below one.\<close>

fun create_route_tables_loop ::
  "string \<Rightarrow> pval \<Rightarrow> pydict \<Rightarrow> nat list \<Rightarrow> resource list \<Rightarrow> state
     \<Rightarrow> (resource list) result" where
  "create_route_tables_loop name_prefix vpc_id tags [] route_tables st = (Inr route_tables, st)"
| "create_route_tables_loop name_prefix vpc_id tags (i # rest) route_tables st =
     bind (new_resource RouteTable (name_prefix @ ''-'' @ str_nat i)
             [(''vpc_id'', vpc_id),
              (''tags'', VDict (dict_union
                  [(''Name'', VStr (name_prefix @ ''-'' @ str_nat i))] tags))] st)
       (\<lambda>rt st.
          create_route_tables_loop name_prefix vpc_id tags rest (route_tables @ [rt]) st)"

definition create_route_tables ::
  "string \<Rightarrow> pval \<Rightarrow> int \<Rightarrow> pydict option \<Rightarrow> state \<Rightarrow> (resource list) result" where
  "create_route_tables name_prefix vpc_id count tags st =
     (let tags = tags_or_empty tags in
      create_route_tables_loop name_prefix vpc_id tags [0 ..< nat count] [] st)"

text \<open>
  \<^verbatim>\<open>create_route\<close>: the three next-hop parameters default to \<^verbatim>\<open>None\<close>; the
  \<^verbatim>\<open>if\<close>/\<^verbatim>\<open>elif\<close> chain tests their truthiness in the order of the source.
\<close>

definition create_route ::
  "string \<Rightarrow> pval \<Rightarrow> string \<Rightarrow> pval \<Rightarrow> pval \<Rightarrow> pval \<Rightarrow> state \<Rightarrow> resource result" where
  "create_route name route_table_id destination_cidr_block gateway_id nat_gateway_id
       vpc_peering_connection_id st =
     (let route_args = [(''route_table_id'', route_table_id),
                        (''destination_cidr_block'', VStr destination_cidr_block)] in
      if truthy gateway_id then
        new_resource Route name (route_args @ [(''gateway_id'', gateway_id)]) st
      else if truthy nat_gateway_id then
        new_resource Route name (route_args @ [(''nat_gateway_id'', nat_gateway_id)]) st
      else if truthy vpc_peering_connection_id then
        new_resource Route name
          (route_args @ [(''vpc_peering_connection_id'', vpc_peering_connection_id)]) st
      else
        (Inl (ValueError
           ''Must specify gateway_id, nat_gateway_id, or vpc_peering_connection_id''), st))"

definition associate_route_table ::
  "string \<Rightarrow> pval \<Rightarrow> pval \<Rightarrow> state \<Rightarrow> resource result" where
  "associate_route_table name subnet_id route_table_id st =
     new_resource RouteTableAssociation name
       [(''subnet_id'', subnet_id), (''route_table_id'', route_table_id)] st"

section \<open>tgw.py\<close>

text \<open>\<^verbatim>\<open>"enable" if flag else "disable"\<close>.\<close>

definition enable_disable :: "bool \<Rightarrow> pval" where
  "enable_disable flag = VStr (if flag then ''enable'' else ''disable'')"

text \<open>\<^verbatim>\<open>tags or {}\<close>: \<^verbatim>\<open>None\<close> and the empty dict both give the empty dict.\<close>

definition tags_or :: "pydict option \<Rightarrow> pydict" where
  "tags_or tags = (case tags of None \<Rightarrow> [] | Some d \<Rightarrow> if d \<noteq> [] then d else [])"

text \<open>\<^verbatim>\<open>description or f"Transit Gateway {name}"\<close>, for \<^verbatim>\<open>description: str = None\<close>.\<close>

definition str_or :: "string option \<Rightarrow> string \<Rightarrow> string" where
  "str_or x d = (case x of None \<Rightarrow> d | Some s \<Rightarrow> if s \<noteq> [] then s else d)"

definition create_transit_gateway ::
  "string \<Rightarrow> string option \<Rightarrow> int \<Rightarrow> bool \<Rightarrow> bool \<Rightarrow> bool \<Rightarrow> bool \<Rightarrow> pydict option \<Rightarrow> state
     \<Rightarrow> resource result" where
  "create_transit_gateway name description amazon_side_asn default_route_table_association
       default_route_table_propagation dns_support vpn_ecmp_support tags st =
     (let default_rt_assoc = enable_disable default_route_table_association;
          default_rt_prop = enable_disable default_route_table_propagation;
          dns = enable_disable dns_support;
          vpn_ecmp = enable_disable vpn_ecmp_support in
      new_resource TransitGateway name
        [(''description'', VStr (str_or description (''Transit Gateway '' @ name))),
         (''amazon_side_asn'', VInt amazon_side_asn),
         (''default_route_table_association'', default_rt_assoc),
         (''default_route_table_propagation'', default_rt_prop),
         (''dns_support'', dns),
         (''vpn_ecmp_support'', vpn_ecmp),
         (''tags'', VDict (tags_or tags))] st)"

text \<open>
  \<^verbatim>\<open>create_transit_gateway_vpc_attachment\<close>: the list of subnet ids is passed on as it
  is; nothing in the function inspects it.
\<close>

definition create_transit_gateway_vpc_attachment ::
  "string \<Rightarrow> pval \<Rightarrow> pval \<Rightarrow> pval list \<Rightarrow> bool \<Rightarrow> bool \<Rightarrow> bool \<Rightarrow> pydict option \<Rightarrow> state
     \<Rightarrow> resource result" where
  "create_transit_gateway_vpc_attachment name transit_gateway_id vpc_id subnet_ids dns_support
       ipv6_support appliance_mode_support tags st =
     (let dns = enable_disable dns_support;
          ipv6 = enable_disable ipv6_support;
          appliance = enable_disable appliance_mode_support in
      new_resource VpcAttachment name
        [(''transit_gateway_id'', transit_gateway_id),
         (''vpc_id'', vpc_id),
         (''subnet_ids'', VList subnet_ids),
         (''dns_support'', dns),
         (''ipv6_support'', ipv6),
         (''appliance_mode_support'', appliance),
         (''tags'', VDict (tags_or tags))] st)"

text \<open>
  \<^verbatim>\<open>create_transit_gateway_route\<close>: \<^verbatim>\<open>transit_gateway_attachment_id\<close> defaults to
  \<^verbatim>\<open>None\<close>; it enters the arguments under
  \<^verbatim>\<open>if transit_gateway_attachment_id and not blackhole\<close>.
\<close>

definition create_transit_gateway_route ::
  "string \<Rightarrow> string \<Rightarrow> pval \<Rightarrow> pval \<Rightarrow> bool \<Rightarrow> state \<Rightarrow> resource result" where
  "create_transit_gateway_route name destination_cidr_block transit_gateway_route_table_id
       transit_gateway_attachment_id blackhole st =
     (let route_args = [(''destination_cidr_block'', VStr destination_cidr_block),
                        (''transit_gateway_route_table_id'', transit_gateway_route_table_id),
                        (''blackhole'', VBool blackhole)];
          route_args =
            (if truthy transit_gateway_attachment_id \<and> \<not> blackhole
             then route_args @
                    [(''transit_gateway_attachment_id'', transit_gateway_attachment_id)]
             else route_args) in
      new_resource TransitGatewayRoute name route_args st)"

definition add_tgw_route_to_vpc_route_table ::
  "string \<Rightarrow> pval \<Rightarrow> string \<Rightarrow> pval \<Rightarrow> state \<Rightarrow> resource result" where
  "add_tgw_route_to_vpc_route_table name route_table_id destination_cidr_block
       transit_gateway_id st =
     new_resource Route name
       [(''route_table_id'', route_table_id),
        (''destination_cidr_block'', VStr destination_cidr_block),
        (''transit_gateway_id'', transit_gateway_id)] st"

text \<open>
  A VPC configuration dict of \<^verbatim>\<open>create_tgw_with_vpc_attachments\<close>, with the five keys
  its docstring lists (\<^verbatim>\<open>name\<close>, \<^verbatim>\<open>vpc_id\<close>, \<^verbatim>\<open>subnet_ids\<close>, \<^verbatim>\<open>cidr\<close>,
  \<^verbatim>\<open>route_table_id\<close>); the fields carry the prefix \<open>vc_\<close>.
\<close>

record vpc_config =
  vc_name :: string
  vc_vpc_id :: pval
  vc_subnet_ids :: "pval list"
  vc_cidr :: string
  vc_route_table_id :: pval

text \<open>The tags of one attachment:
  \<^verbatim>\<open>{**tags, "VPC": name} if tags else {"VPC": name}\<close>.\<close>

definition attachment_tags :: "pydict option \<Rightarrow> string \<Rightarrow> pydict" where
  "attachment_tags tags n =
     (case tags of
        None \<Rightarrow> [(''VPC'', VStr n)]
      | Some d \<Rightarrow> if d \<noteq> [] then dict_union d [(''VPC'', VStr n)] else [(''VPC'', VStr n)])"

text \<open>The loop \<^verbatim>\<open>for vpc_config in vpc_configs\<close> that creates the attachments.\<close>

fun attachments_loop ::
  "string \<Rightarrow> resource \<Rightarrow> pydict option \<Rightarrow> vpc_config list \<Rightarrow> resource list \<Rightarrow> state
     \<Rightarrow> (resource list) result" where
  "attachments_loop name_prefix tgw tags [] attachments st = (Inr attachments, st)"
| "attachments_loop name_prefix tgw tags (vpc_config # rest) attachments st =
     bind (create_transit_gateway_vpc_attachment
             (name_prefix @ ''-'' @ vc_name vpc_config @ ''-attachment'')
             (res_id tgw) (vc_vpc_id vpc_config) (vc_subnet_ids vpc_config)
             True False False
             (Some (attachment_tags tags (vc_name vpc_config))) st)
       (\<lambda>attachment st.
          attachments_loop name_prefix tgw tags rest (attachments @ [attachment]) st)"

text \<open>
  The inner loop \<^verbatim>\<open>for j, dst_vpc in enumerate(vpc_configs)\<close>, for a fixed source \<open>i\<close>,
  \<open>src_vpc\<close>; \<open>j\<close> is the running index.
\<close>

fun routes_inner_loop ::
  "string \<Rightarrow> resource \<Rightarrow> nat \<Rightarrow> vpc_config \<Rightarrow> nat \<Rightarrow> vpc_config list \<Rightarrow> resource list
     \<Rightarrow> state \<Rightarrow> (resource list) result" where
  "routes_inner_loop name_prefix tgw i src_vpc j [] vpc_routes st = (Inr vpc_routes, st)"
| "routes_inner_loop name_prefix tgw i src_vpc j (dst_vpc # rest) vpc_routes st =
     (if i \<noteq> j then
        bind (add_tgw_route_to_vpc_route_table
                (name_prefix @ ''-'' @ vc_name src_vpc @ ''-to-'' @ vc_name dst_vpc)
                (vc_route_table_id src_vpc) (vc_cidr dst_vpc) (res_id tgw) st)
          (\<lambda>route st.
             routes_inner_loop name_prefix tgw i src_vpc (Suc j) rest
               (vpc_routes @ [route]) st)
      else routes_inner_loop name_prefix tgw i src_vpc (Suc j) rest vpc_routes st)"

text \<open>The outer loop \<^verbatim>\<open>for i, src_vpc in enumerate(vpc_configs)\<close>.\<close>

fun routes_outer_loop ::
  "string \<Rightarrow> resource \<Rightarrow> vpc_config list \<Rightarrow> nat \<Rightarrow> vpc_config list \<Rightarrow> resource list
     \<Rightarrow> state \<Rightarrow> (resource list) result" where
  "routes_outer_loop name_prefix tgw vpc_configs i [] vpc_routes st = (Inr vpc_routes, st)"
| "routes_outer_loop name_prefix tgw vpc_configs i (src_vpc # rest) vpc_routes st =
     bind (routes_inner_loop name_prefix tgw i src_vpc 0 vpc_configs vpc_routes st)
       (\<lambda>vpc_routes st.
          routes_outer_loop name_prefix tgw vpc_configs (Suc i) rest vpc_routes st)"

definition create_tgw_with_vpc_attachments ::
  "string \<Rightarrow> string \<Rightarrow> vpc_config list \<Rightarrow> bool \<Rightarrow> pydict option \<Rightarrow> state
     \<Rightarrow> (resource \<times> resource list \<times> resource list) result" where
  "create_tgw_with_vpc_attachments name_prefix tgw_description vpc_configs
       use_default_route_table tags st =
     bind (create_transit_gateway (name_prefix @ ''-tgw'') (Some tgw_description) 64512
             use_default_route_table use_default_route_table True True tags st)
       (\<lambda>tgw st.
     bind (attachments_loop name_prefix tgw tags vpc_configs [] st)
       (\<lambda>attachments st.
     bind (routes_outer_loop name_prefix tgw vpc_configs 0 vpc_configs [] st)
       (\<lambda>vpc_routes st.
          (Inr (tgw, attachments, vpc_routes), st))))"

section \<open>The assembly script\<close>

text \<open>
  What the module body reads from outside: the stack configuration through
  \<^verbatim>\<open>config.get\<close>, \<^verbatim>\<open>config.get_int\<close> and \<^verbatim>\<open>config.get_bool\<close> (each gives \<^verbatim>\<open>None\<close> for
  a key that is not set), the project and stack names, and the id of the machine image
  that \<^verbatim>\<open>aws.ec2.get_ami(most_recent=True, ...)\<close> finds.
\<close>

record config =
  get :: "string \<Rightarrow> string option"
  get_int :: "string \<Rightarrow> int option"
  get_bool :: "string \<Rightarrow> bool option"

text \<open>\<^verbatim>\<open>config.get_int(k) or d\<close> and \<^verbatim>\<open>config.get_bool(k) or d\<close>.\<close>

definition int_or :: "int option \<Rightarrow> int \<Rightarrow> int" where
  "int_or x d = (case x of None \<Rightarrow> d | Some i \<Rightarrow> if i \<noteq> 0 then i else d)"

definition bool_or :: "bool option \<Rightarrow> bool \<Rightarrow> bool" where
  "bool_or x d = (case x of None \<Rightarrow> d | Some b \<Rightarrow> if b then b else d)"

definition opt_str :: "string option \<Rightarrow> pval" where
  "opt_str x = (case x of None \<Rightarrow> VNone | Some s \<Rightarrow> VStr s)"

text \<open>One entry of a security group's \<^verbatim>\<open>ingress\<close> or \<^verbatim>\<open>egress\<close> list, a dict literal.\<close>

definition sg_rule :: "string \<Rightarrow> int \<Rightarrow> int \<Rightarrow> string \<Rightarrow> string \<Rightarrow> pval" where
  "sg_rule protocol from_port to_port cidr description =
     VDict [(''protocol'', VStr protocol),
            (''from_port'', VInt from_port),
            (''to_port'', VInt to_port),
            (''cidr_blocks'', VList [VStr cidr]),
            (''description'', VStr description)]"

definition main :: "config \<Rightarrow> string \<Rightarrow> string \<Rightarrow> string \<Rightarrow> state \<Rightarrow> unit result" where
  "main config project_name stack_name ami_id st =
     (let lab_vpc_cidr = str_or (get config ''lab_vpc_cidr'') ''10.200.0.0/16'';
          lab_subnet_cidr = str_or (get config ''lab_subnet_cidr'') ''10.200.10.0/24'';
          lab_tgw_subnet_a_cidr =
            str_or (get config ''lab_tgw_subnet_a_cidr'') ''10.200.255.0/24'';
          lab_tgw_subnet_b_cidr =
            str_or (get config ''lab_tgw_subnet_b_cidr'') ''10.200.254.0/24'';
          dev_vpc_cidr = str_or (get config ''dev_vpc_cidr'') ''10.201.0.0/16'';
          dev_subnet_cidr = str_or (get config ''dev_subnet_cidr'') ''10.201.10.0/24'';
          dev_tgw_subnet_a_cidr =
            str_or (get config ''dev_tgw_subnet_a_cidr'') ''10.201.255.0/24'';
          dev_tgw_subnet_b_cidr =
            str_or (get config ''dev_tgw_subnet_b_cidr'') ''10.201.254.0/24'';
          instance_type = str_or (get config ''instance_type'') ''t3.micro'';
          key_name = opt_str (get config ''key_name'');
          tgw_amazon_side_asn = int_or (get_int config ''tgw_asn'') 64512;
          use_default_tgw_route_table = bool_or (get_bool config ''tgw_use_default_rt'') True;
          aws_region = str_or (get config ''aws:region'') ''us-east-1'';
          common_tags = [(''Project'', VStr project_name),
                         (''ManagedBy'', VStr ''Pulumi''),
                         (''Environment'', VStr stack_name),
                         (''Tutorial'', VStr ''6-Transit-Gateway'')]
      in
     bind (create_vpc (project_name @ ''-lab-vpc'') lab_vpc_cidr True True
             (Some (dict_union common_tags [(''Name'', VStr (''lab-vpc-'' @ stack_name))])) st)
       (\<lambda>lab_vpc st.
     bind (create_subnets (project_name @ ''-lab-workload'') (res_id lab_vpc)
             [lab_subnet_cidr] [aws_region @ ''a''] False
             (Some (dict_union common_tags
                [(''Name'', VStr (''lab-workload-subnet-'' @ stack_name)),
                 (''Type'', VStr ''Workload'')])) st)
       (\<lambda>lab_workload_subnets st.
     bind (index lab_workload_subnets 0 st)
       (\<lambda>lab_workload_subnet st.
     bind (create_subnets (project_name @ ''-lab-tgw'') (res_id lab_vpc)
             [lab_tgw_subnet_a_cidr, lab_tgw_subnet_b_cidr]
             [aws_region @ ''a'', aws_region @ ''b''] False
             (Some (dict_union common_tags [(''Type'', VStr ''TransitGateway'')])) st)
       (\<lambda>lab_tgw_subnets st.
     bind (index lab_tgw_subnets 0 st)
       (\<lambda>lab_tgw_subnet_a st.
     bind (index lab_tgw_subnets 1 st)
       (\<lambda>lab_tgw_subnet_b st.
     bind (create_internet_gateway (project_name @ ''-lab-igw'') (res_id lab_vpc)
             (Some (dict_union common_tags [(''Name'', VStr (''lab-igw-'' @ stack_name))])) st)
       (\<lambda>lab_igw st.
     bind (create_route_tables (project_name @ ''-lab-workload'') (res_id lab_vpc) 1
             (Some (dict_union common_tags
                [(''Name'', VStr (''lab-workload-rt-'' @ stack_name))])) st)
       (\<lambda>lab_route_tables st.
     bind (index lab_route_tables 0 st)
       (\<lambda>lab_route_table st.
     bind (create_route (project_name @ ''-lab-igw-route'') (res_id lab_route_table)
             ''0.0.0.0/0'' (res_id lab_igw) VNone VNone st)
       (\<lambda>lab_igw_route st.
     bind (associate_route_table (project_name @ ''-lab-workload-rta'')
             (res_id lab_workload_subnet) (res_id lab_route_table) st)
       (\<lambda>lab_rta st.
     bind (create_vpc (project_name @ ''-dev-vpc'') dev_vpc_cidr True True
             (Some (dict_union common_tags [(''Name'', VStr (''dev-vpc-'' @ stack_name))])) st)
       (\<lambda>dev_vpc st.
     bind (create_subnets (project_name @ ''-dev-workload'') (res_id dev_vpc)
             [dev_subnet_cidr] [aws_region @ ''a''] False
             (Some (dict_union common_tags
                [(''Name'', VStr (''dev-workload-subnet-'' @ stack_name)),
                 (''Type'', VStr ''Workload'')])) st)
       (\<lambda>dev_workload_subnets st.
     bind (index dev_workload_subnets 0 st)
       (\<lambda>dev_workload_subnet st.
     bind (create_subnets (project_name @ ''-dev-tgw'') (res_id dev_vpc)
             [dev_tgw_subnet_a_cidr, dev_tgw_subnet_b_cidr]
             [aws_region @ ''a'', aws_region @ ''b''] False
             (Some (dict_union common_tags [(''Type'', VStr ''TransitGateway'')])) st)
       (\<lambda>dev_tgw_subnets st.
     bind (index dev_tgw_subnets 0 st)
       (\<lambda>dev_tgw_subnet_a st.
     bind (index dev_tgw_subnets 1 st)
       (\<lambda>dev_tgw_subnet_b st.
     bind (create_internet_gateway (project_name @ ''-dev-igw'') (res_id dev_vpc)
             (Some (dict_union common_tags [(''Name'', VStr (''dev-igw-'' @ stack_name))])) st)
       (\<lambda>dev_igw st.
     bind (create_route_tables (project_name @ ''-dev-workload'') (res_id dev_vpc) 1
             (Some (dict_union common_tags
                [(''Name'', VStr (''dev-workload-rt-'' @ stack_name))])) st)
       (\<lambda>dev_route_tables st.
     bind (index dev_route_tables 0 st)
       (\<lambda>dev_route_table st.
     bind (create_route (project_name @ ''-dev-igw-route'') (res_id dev_route_table)
             ''0.0.0.0/0'' (res_id dev_igw) VNone VNone st)
       (\<lambda>dev_igw_route st.
     bind (associate_route_table (project_name @ ''-dev-workload-rta'')
             (res_id dev_workload_subnet) (res_id dev_route_table) st)
       (\<lambda>dev_rta st.
     bind (create_transit_gateway (project_name @ ''-tgw'')
             (Some (''Transit Gateway for '' @ project_name)) tgw_amazon_side_asn
             use_default_tgw_route_table use_default_tgw_route_table True True
             (Some (dict_union common_tags [(''Name'', VStr (''tgw-'' @ stack_name))])) st)
       (\<lambda>tgw st.
     bind (create_transit_gateway_vpc_attachment (project_name @ ''-lab-tgw-attachment'')
             (res_id tgw) (res_id lab_vpc)
             [res_id lab_tgw_subnet_a, res_id lab_tgw_subnet_b] True False False
             (Some (dict_union common_tags
                [(''Name'', VStr (''lab-tgw-attachment-'' @ stack_name)),
                 (''VPC'', VStr ''lab'')])) st)
       (\<lambda>lab_attachment st.
     bind (create_transit_gateway_vpc_attachment (project_name @ ''-dev-tgw-attachment'')
             (res_id tgw) (res_id dev_vpc)
             [res_id dev_tgw_subnet_a, res_id dev_tgw_subnet_b] True False False
             (Some (dict_union common_tags
                [(''Name'', VStr (''dev-tgw-attachment-'' @ stack_name)),
                 (''VPC'', VStr ''dev'')])) st)
       (\<lambda>dev_attachment st.
     bind (add_tgw_route_to_vpc_route_table (project_name @ ''-lab-to-dev-via-tgw'')
             (res_id lab_route_table) dev_vpc_cidr (res_id tgw) st)
       (\<lambda>lab_to_dev_route st.
     bind (add_tgw_route_to_vpc_route_table (project_name @ ''-dev-to-lab-via-tgw'')
             (res_id dev_route_table) lab_vpc_cidr (res_id tgw) st)
       (\<lambda>dev_to_lab_route st.
     bind (new_resource SecurityGroup (project_name @ ''-lab-sg'')
             [(''vpc_id'', res_id lab_vpc),
              (''description'', VStr ''Security group for Lab VPC test instance''),
              (''ingress'', VList
                 [sg_rule ''tcp'' 22 22 ''0.0.0.0/0'' ''SSH access'',
                  sg_rule ''icmp'' (- 1) (- 1) dev_vpc_cidr ''ICMP from Dev VPC'',
                  sg_rule ''-1'' 0 0 dev_vpc_cidr ''All traffic from Dev VPC'']),
              (''egress'', VList [sg_rule ''-1'' 0 0 ''0.0.0.0/0'' ''Allow all outbound'']),
              (''tags'', VDict (dict_union common_tags
                 [(''Name'', VStr (''lab-sg-'' @ stack_name))]))] st)
       (\<lambda>lab_sg st.
     bind (new_resource SecurityGroup (project_name @ ''-dev-sg'')
             [(''vpc_id'', res_id dev_vpc),
              (''description'', VStr ''Security group for Dev VPC test instance''),
              (''ingress'', VList
                 [sg_rule ''tcp'' 22 22 ''0.0.0.0/0'' ''SSH access'',
                  sg_rule ''icmp'' (- 1) (- 1) lab_vpc_cidr ''ICMP from Lab VPC'',
                  sg_rule ''-1'' 0 0 lab_vpc_cidr ''All traffic from Lab VPC'']),
              (''egress'', VList [sg_rule ''-1'' 0 0 ''0.0.0.0/0'' ''Allow all outbound'']),
              (''tags'', VDict (dict_union common_tags
                 [(''Name'', VStr (''dev-sg-'' @ stack_name))]))] st)
       (\<lambda>dev_sg st.
     bind (new_resource Instance (project_name @ ''-lab-instance'')
             [(''instance_type'', VStr instance_type),
              (''ami'', VStr ami_id),
              (''subnet_id'', res_id lab_workload_subnet),
              (''vpc_security_group_ids'', VList [res_id lab_sg]),
              (''associate_public_ip_address'', VBool True),
              (''key_name'', key_name),
              (''tags'', VDict (dict_union common_tags
                 [(''Name'', VStr (''lab-instance-'' @ stack_name))]))] st)
       (\<lambda>lab_instance st.
     bind (new_resource Instance (project_name @ ''-dev-instance'')
             [(''instance_type'', VStr instance_type),
              (''ami'', VStr ami_id),
              (''subnet_id'', res_id dev_workload_subnet),
              (''vpc_security_group_ids'', VList [res_id dev_sg]),
              (''associate_public_ip_address'', VBool True),
              (''key_name'', key_name),
              (''tags'', VDict (dict_union common_tags
                 [(''Name'', VStr (''dev-instance-'' @ stack_name))]))] st)
       (\<lambda>dev_instance st.
          (Inr (), st)))))))))))))))))))))))))))))))))"

section \<open>Notions used in the statements\<close>

text \<open>
  An optional parameter is supplied when the caller passes something other than
  \<^verbatim>\<open>None\<close>. A call raises when its result is an exception.
\<close>

definition supplied :: "pval \<Rightarrow> bool" where
  "supplied x = (x \<noteq> VNone)"

definition raises :: "'a result \<Rightarrow> bool" where
  "raises r = (case fst r of Inl e \<Rightarrow> True | Inr a \<Rightarrow> False)"

text \<open>
  The subnet that one round of the loop of \<^verbatim>\<open>create_subnets\<close> constructs, from the
  entry \<open>(i, (cidr, az))\<close> of the enumerated zip.
\<close>

definition subnet_decl ::
  "string \<Rightarrow> pval \<Rightarrow> bool \<Rightarrow> pydict \<Rightarrow> nat \<times> string \<times> string \<Rightarrow> resource" where
  "subnet_decl name_prefix vpc_id public tags e =
     \<lparr>res_type = Subnet,
      res_name = name_prefix @ ''-'' @ str_nat (fst e),
      res_args =
        [(''vpc_id'', vpc_id),
         (''cidr_block'', VStr (fst (snd e))),
         (''availability_zone'', VStr (snd (snd e))),
         (''map_public_ip_on_launch'', VBool public),
         (''tags'', VDict (dict_union
             [(''Name'', VStr (name_prefix @ ''-'' @ str_nat (fst e)))] tags))]\<rparr>"

text \<open>
  The resources that \<^verbatim>\<open>create_tgw_with_vpc_attachments\<close> constructs: the hub, the
  attachment of one configuration, and the route from a source configuration to a
  destination configuration.
\<close>

definition tgw_decl :: "string \<Rightarrow> string \<Rightarrow> bool \<Rightarrow> pydict option \<Rightarrow> resource" where
  "tgw_decl name_prefix tgw_description use_default_route_table tags =
     \<lparr>res_type = TransitGateway,
      res_name = name_prefix @ ''-tgw'',
      res_args =
        [(''description'',
            VStr (str_or (Some tgw_description) (''Transit Gateway '' @ name_prefix @ ''-tgw''))),
         (''amazon_side_asn'', VInt 64512),
         (''default_route_table_association'', enable_disable use_default_route_table),
         (''default_route_table_propagation'', enable_disable use_default_route_table),
         (''dns_support'', enable_disable True),
         (''vpn_ecmp_support'', enable_disable True),
         (''tags'', VDict (tags_or tags))]\<rparr>"

definition attachment_decl :: "string \<Rightarrow> resource \<Rightarrow> pydict option \<Rightarrow> vpc_config \<Rightarrow> resource" where
  "attachment_decl name_prefix tgw tags vpc_config =
     \<lparr>res_type = VpcAttachment,
      res_name = name_prefix @ ''-'' @ vc_name vpc_config @ ''-attachment'',
      res_args =
        [(''transit_gateway_id'', res_id tgw),
         (''vpc_id'', vc_vpc_id vpc_config),
         (''subnet_ids'', VList (vc_subnet_ids vpc_config)),
         (''dns_support'', enable_disable True),
         (''ipv6_support'', enable_disable False),
         (''appliance_mode_support'', enable_disable False),
         (''tags'', VDict (tags_or (Some (attachment_tags tags (vc_name vpc_config)))))]\<rparr>"

definition route_decl :: "string \<Rightarrow> resource \<Rightarrow> vpc_config \<Rightarrow> vpc_config \<Rightarrow> resource" where
  "route_decl name_prefix tgw src_vpc dst_vpc =
     \<lparr>res_type = Route,
      res_name = name_prefix @ ''-'' @ vc_name src_vpc @ ''-to-'' @ vc_name dst_vpc,
      res_args =
        [(''route_table_id'', vc_route_table_id src_vpc),
         (''destination_cidr_block'', VStr (vc_cidr dst_vpc)),
         (''transit_gateway_id'', res_id tgw)]\<rparr>"

text \<open>
  The routes of all ordered pairs of distinct positions \<open>(i, j)\<close> of the list of
  configurations, sources first, destinations within one source in list order.
\<close>

definition pair_routes :: "string \<Rightarrow> resource \<Rightarrow> vpc_config list \<Rightarrow> resource list" where
  "pair_routes name_prefix tgw vpc_configs =
     concat (map (\<lambda>i. map (\<lambda>j. route_decl name_prefix tgw (vpc_configs ! i) (vpc_configs ! j))
                          (filter (\<lambda>j. i \<noteq> j) [0 ..< length vpc_configs]))
                 [0 ..< length vpc_configs])"

section \<open>Properties\<close>

subsection \<open>Sequencing and resource construction\<close>

lemma bind_Inr [simp]: "bind (Inr a, st) f = f a st"
  by (simp add: bind_def)

lemma bind_Inl [simp]: "bind (Inl e, st) f = (Inl e, st)"
  by (simp add: bind_def)

lemma new_resource_eq [simp]:
  "new_resource t n args st =
     (Inr \<lparr>res_type = t, res_name = n, res_args = args\<rparr>,
      st @ [\<lparr>res_type = t, res_name = n, res_args = args\<rparr>])"
  by (simp add: new_resource_def Let_def)

subsection \<open>\<^verbatim>\<open>create_vpc\<close>\<close>

text \<open>
  C4. For every address range string: when it contains a slash, \<^verbatim>\<open>create_vpc\<close>
  succeeds, declares exactly one VPC and returns it, carrying that CIDR; when it has no
  slash (the empty string included) the call fails with the \<^verbatim>\<open>ValueError\<close> that the
  specification calls a configuration error, and the state of declared resources is the
  one before the call: nothing was declared.
\<close>

theorem create_vpc_slash_check:
  "(CHR ''/'' \<in> set cidr_block \<longrightarrow>
      (\<exists>vpc. create_vpc name cidr_block hn hs tags st = (Inr vpc, st @ [vpc])
         \<and> res_type vpc = Vpc \<and> res_name vpc = name
         \<and> arg vpc ''cidr_block'' = Some (VStr cidr_block)))
   \<and> (CHR ''/'' \<notin> set cidr_block \<longrightarrow>
      create_vpc name cidr_block hn hs tags st =
        (Inl (ValueError (''Invalid CIDR block: '' @ cidr_block)), st))"
  by (auto simp: create_vpc_def arg_def Let_def)

theorem create_vpc_slash_check_witness:
  "CHR ''/'' \<in> set ''10.200.0.0/16''
   \<and> (\<exists>vpc. create_vpc ''lab-vpc'' ''10.200.0.0/16'' True True None [] = (Inr vpc, [] @ [vpc])
         \<and> res_type vpc = Vpc \<and> res_name vpc = ''lab-vpc''
         \<and> arg vpc ''cidr_block'' = Some (VStr ''10.200.0.0/16''))
   \<and> CHR ''/'' \<notin> set ''''
   \<and> create_vpc ''lab-vpc'' '''' True True None [] =
        (Inl (ValueError (''Invalid CIDR block: '' @ '''')), [])"
  using create_vpc_slash_check [of "''10.200.0.0/16''" "''lab-vpc''" True True None "[]"]
    create_vpc_slash_check [of "''''" "''lab-vpc''" True True None "[]"]
  by simp

subsection \<open>\<^verbatim>\<open>create_subnets\<close>\<close>

text \<open>
  The loop appends one subnet per entry of the enumerated zip, to the list it returns and
  to the declared resources alike.
\<close>

lemma create_subnets_loop_eq:
  "create_subnets_loop p v pub t i zs acc st =
     (Inr (acc @ map (subnet_decl p v pub t) (List.enumerate i zs)),
      st @ map (subnet_decl p v pub t) (List.enumerate i zs))"
proof (induction zs arbitrary: i acc st)
  case Nil
  show ?case by simp
next
  case (Cons z zs)
  obtain c a where z: "z = (c, a)" by (cases z)
  show ?case
    by (simp add: z Cons.IH subnet_decl_def)
qed

lemma create_subnets_eq:
  "create_subnets p v cidrs azs pub tags st =
     (Inr (map (subnet_decl p v pub (tags_or_empty tags)) (List.enumerate 0 (zip cidrs azs))),
      st @ map (subnet_decl p v pub (tags_or_empty tags)) (List.enumerate 0 (zip cidrs azs)))"
  by (simp add: create_subnets_def create_subnets_loop_eq Let_def)

text \<open>
  C2. For every pair of input lists, \<^verbatim>\<open>create_subnets\<close> returns without an exception,
  whether or not the lengths agree, and the list it returns (the subnets it declared)
  is as long as the shorter of the two lists.
\<close>

theorem create_subnets_length:
  "\<exists>subnets. create_subnets p v cidrs azs pub tags st = (Inr subnets, st @ subnets)
      \<and> length subnets = min (length cidrs) (length azs)"
  by (simp add: create_subnets_eq)

text \<open>
  C6. For every pair of input lists and every position \<open>i\<close> that both lists have, the
  subnet at index \<open>i\<close> of the returned list is the one named with index \<open>i\<close>, and it
  carries the \<open>i\<close>-th CIDR block and the \<open>i\<close>-th availability zone of the inputs.
\<close>

theorem create_subnets_positional:
  assumes "i < length cidrs" and "i < length azs"
  shows "\<exists>subnets. create_subnets p v cidrs azs pub tags st = (Inr subnets, st @ subnets)
      \<and> i < length subnets
      \<and> res_name (subnets ! i) = p @ ''-'' @ str_nat i
      \<and> arg (subnets ! i) ''cidr_block'' = Some (VStr (cidrs ! i))
      \<and> arg (subnets ! i) ''availability_zone'' = Some (VStr (azs ! i))"
  using assms
  by (simp add: create_subnets_eq nth_enumerate_eq subnet_decl_def arg_def)

theorem create_subnets_positional_witness:
  "(1::nat) < length [''10.200.255.0/24'', ''10.200.254.0/24'']
   \<and> (1::nat) < length [''us-east-1a'', ''us-east-1b'']
   \<and> (\<exists>subnets. create_subnets ''lab-tgw'' (VStr ''vpc-1'')
          [''10.200.255.0/24'', ''10.200.254.0/24''] [''us-east-1a'', ''us-east-1b'']
          False None [] = (Inr subnets, [] @ subnets)
      \<and> 1 < length subnets
      \<and> res_name (subnets ! 1) = ''lab-tgw'' @ ''-'' @ str_nat 1
      \<and> arg (subnets ! 1) ''cidr_block'' = Some (VStr ''10.200.254.0/24'')
      \<and> arg (subnets ! 1) ''availability_zone'' = Some (VStr ''us-east-1b''))"
  using create_subnets_positional [of 1 "[''10.200.255.0/24'', ''10.200.254.0/24'']"
      "[''us-east-1a'', ''us-east-1b'']" "''lab-tgw''" "VStr ''vpc-1''" False None "[]"]
  by simp

subsection \<open>\<^verbatim>\<open>create_route\<close>\<close>

text \<open>
  C1 as stated fails. With a gateway and a NAT gateway both passed, two next hops are
  supplied, and the call does not raise.
\<close>

theorem create_route_ambiguous_counterexample:
  "length (filter supplied [VStr ''igw-1'', VStr ''nat-1'', VNone]) = 2
   \<and> \<not> raises (create_route ''r'' (VStr ''rtb-1'') ''0.0.0.0/0''
                  (VStr ''igw-1'') (VStr ''nat-1'') VNone [])"
  by (simp add: supplied_def raises_def create_route_def)

text \<open>
  C1, amended. \<^verbatim>\<open>create_route\<close> raises exactly when none of the three next-hop
  arguments is true in Python's sense (each is \<^verbatim>\<open>None\<close> or empty); the exception is the
  \<^verbatim>\<open>ValueError\<close> of the source and no route is declared. When exactly one of the three
  is true, the call succeeds, declares one route and returns it, and the route references
  that next hop.
\<close>

theorem create_route_raises_iff:
  "(raises (create_route name rt dst g ng pc st)
      \<longleftrightarrow> \<not> truthy g \<and> \<not> truthy ng \<and> \<not> truthy pc)
   \<and> (raises (create_route name rt dst g ng pc st) \<longrightarrow>
        create_route name rt dst g ng pc st =
          (Inl (ValueError
             ''Must specify gateway_id, nat_gateway_id, or vpc_peering_connection_id''), st))
   \<and> (truthy g \<and> \<not> truthy ng \<and> \<not> truthy pc \<longrightarrow>
        (\<exists>r. create_route name rt dst g ng pc st = (Inr r, st @ [r])
           \<and> res_type r = Route \<and> arg r ''gateway_id'' = Some g))
   \<and> (\<not> truthy g \<and> truthy ng \<and> \<not> truthy pc \<longrightarrow>
        (\<exists>r. create_route name rt dst g ng pc st = (Inr r, st @ [r])
           \<and> res_type r = Route \<and> arg r ''nat_gateway_id'' = Some ng))
   \<and> (\<not> truthy g \<and> \<not> truthy ng \<and> truthy pc \<longrightarrow>
        (\<exists>r. create_route name rt dst g ng pc st = (Inr r, st @ [r])
           \<and> res_type r = Route \<and> arg r ''vpc_peering_connection_id'' = Some pc))"
  by (simp add: raises_def create_route_def arg_def Let_def)

theorem create_route_raises_iff_witness:
  "raises (create_route ''r'' (VStr ''rtb-1'') ''0.0.0.0/0'' VNone VNone VNone [])
   \<and> create_route ''r'' (VStr ''rtb-1'') ''0.0.0.0/0'' VNone VNone VNone [] =
          (Inl (ValueError
             ''Must specify gateway_id, nat_gateway_id, or vpc_peering_connection_id''), [])
   \<and> truthy (VStr ''igw-1'') \<and> \<not> truthy VNone
   \<and> (\<exists>r. create_route ''r'' (VStr ''rtb-1'') ''0.0.0.0/0'' (VStr ''igw-1'') VNone VNone []
             = (Inr r, [] @ [r])
           \<and> res_type r = Route \<and> arg r ''gateway_id'' = Some (VStr ''igw-1''))
   \<and> (\<exists>r. create_route ''r'' (VStr ''rtb-1'') ''0.0.0.0/0'' VNone (VStr ''nat-1'') VNone []
             = (Inr r, [] @ [r])
           \<and> res_type r = Route \<and> arg r ''nat_gateway_id'' = Some (VStr ''nat-1''))
   \<and> (\<exists>r. create_route ''r'' (VStr ''rtb-1'') ''0.0.0.0/0'' VNone VNone (VStr ''pcx-1'') []
             = (Inr r, [] @ [r])
           \<and> res_type r = Route
           \<and> arg r ''vpc_peering_connection_id'' = Some (VStr ''pcx-1''))"
  using create_route_raises_iff
      [of "''r''" "VStr ''rtb-1''" "''0.0.0.0/0''" VNone VNone VNone "[]"]
    create_route_raises_iff
      [of "''r''" "VStr ''rtb-1''" "''0.0.0.0/0''" "VStr ''igw-1''" VNone VNone "[]"]
    create_route_raises_iff
      [of "''r''" "VStr ''rtb-1''" "''0.0.0.0/0''" VNone "VStr ''nat-1''" VNone "[]"]
    create_route_raises_iff
      [of "''r''" "VStr ''rtb-1''" "''0.0.0.0/0''" VNone VNone "VStr ''pcx-1''" "[]"]
  by simp

text \<open>
  C8 as stated fails. With the empty string as \<^verbatim>\<open>gateway_id\<close> and a NAT gateway
  id, two arguments are supplied and the first that is not \<^verbatim>\<open>None\<close> is the gateway id,
  yet the route that is declared has the NAT gateway as its next hop and no gateway.
\<close>

theorem create_route_first_non_null_counterexample:
  "supplied (VStr '''') \<and> supplied (VStr ''nat-1'')
   \<and> create_route ''r'' (VStr ''rtb-1'') ''0.0.0.0/0'' (VStr '''') (VStr ''nat-1'') VNone [] =
       (Inr \<lparr>res_type = Route, res_name = ''r'',
              res_args = [(''route_table_id'', VStr ''rtb-1''),
                          (''destination_cidr_block'', VStr ''0.0.0.0/0''),
                          (''nat_gateway_id'', VStr ''nat-1'')]\<rparr>,
        [\<lparr>res_type = Route, res_name = ''r'',
              res_args = [(''route_table_id'', VStr ''rtb-1''),
                          (''destination_cidr_block'', VStr ''0.0.0.0/0''),
                          (''nat_gateway_id'', VStr ''nat-1'')]\<rparr>])"
  by (simp add: supplied_def create_route_def)

text \<open>
  C8, amended. Whatever else is supplied, the first of \<^verbatim>\<open>gateway_id\<close>,
  \<^verbatim>\<open>nat_gateway_id\<close>, \<^verbatim>\<open>vpc_peering_connection_id\<close>, in this order, that is true in
  Python's sense (not \<^verbatim>\<open>None\<close> and not empty) is the next hop of the declared route,
  and the route carries neither of the other two arguments.
\<close>

theorem create_route_precedence:
  "(truthy g \<longrightarrow>
      (\<exists>r. create_route name rt dst g ng pc st = (Inr r, st @ [r])
         \<and> arg r ''gateway_id'' = Some g
         \<and> arg r ''nat_gateway_id'' = None
         \<and> arg r ''vpc_peering_connection_id'' = None))
   \<and> (\<not> truthy g \<and> truthy ng \<longrightarrow>
      (\<exists>r. create_route name rt dst g ng pc st = (Inr r, st @ [r])
         \<and> arg r ''gateway_id'' = None
         \<and> arg r ''nat_gateway_id'' = Some ng
         \<and> arg r ''vpc_peering_connection_id'' = None))
   \<and> (\<not> truthy g \<and> \<not> truthy ng \<and> truthy pc \<longrightarrow>
      (\<exists>r. create_route name rt dst g ng pc st = (Inr r, st @ [r])
         \<and> arg r ''gateway_id'' = None
         \<and> arg r ''nat_gateway_id'' = None
         \<and> arg r ''vpc_peering_connection_id'' = Some pc))"
  by (simp add: create_route_def arg_def Let_def)

theorem create_route_precedence_witness:
  "truthy (VStr ''igw-1'')
   \<and> (\<exists>r. create_route ''r'' (VStr ''rtb-1'') ''0.0.0.0/0''
             (VStr ''igw-1'') (VStr ''nat-1'') (VStr ''pcx-1'') [] = (Inr r, [] @ [r])
         \<and> arg r ''gateway_id'' = Some (VStr ''igw-1'')
         \<and> arg r ''nat_gateway_id'' = None
         \<and> arg r ''vpc_peering_connection_id'' = None)
   \<and> \<not> truthy (VStr '''') \<and> truthy (VStr ''nat-1'')
   \<and> (\<exists>r. create_route ''r'' (VStr ''rtb-1'') ''0.0.0.0/0''
             (VStr '''') (VStr ''nat-1'') (VStr ''pcx-1'') [] = (Inr r, [] @ [r])
         \<and> arg r ''gateway_id'' = None
         \<and> arg r ''nat_gateway_id'' = Some (VStr ''nat-1'')
         \<and> arg r ''vpc_peering_connection_id'' = None)
   \<and> \<not> truthy VNone \<and> truthy (VStr ''pcx-1'')
   \<and> (\<exists>r. create_route ''r'' (VStr ''rtb-1'') ''0.0.0.0/0''
             VNone (VStr '''') (VStr ''pcx-1'') [] = (Inr r, [] @ [r])
         \<and> arg r ''gateway_id'' = None
         \<and> arg r ''nat_gateway_id'' = None
         \<and> arg r ''vpc_peering_connection_id'' = Some (VStr ''pcx-1''))"
  using create_route_precedence
      [of "VStr ''igw-1''" "''r''" "VStr ''rtb-1''" "''0.0.0.0/0''" "VStr ''nat-1''"
          "VStr ''pcx-1''" "[]"]
    create_route_precedence
      [of "VStr ''''" "''r''" "VStr ''rtb-1''" "''0.0.0.0/0''" "VStr ''nat-1''"
          "VStr ''pcx-1''" "[]"]
    create_route_precedence
      [of VNone "''r''" "VStr ''rtb-1''" "''0.0.0.0/0''" "VStr ''''" "VStr ''pcx-1''" "[]"]
  by simp

subsection \<open>\<^verbatim>\<open>create_transit_gateway_vpc_attachment\<close>\<close>

text \<open>
  C7 as stated fails. Called with an empty list of subnet ids, the function does not
  raise, and one resource, the attachment, has been declared.
\<close>

theorem create_vpc_attachment_empty_counterexample:
  "\<not> raises (create_transit_gateway_vpc_attachment ''att'' (VStr ''tgw-1'') (VStr ''vpc-1'') []
               True False False None [])
   \<and> snd (create_transit_gateway_vpc_attachment ''att'' (VStr ''tgw-1'') (VStr ''vpc-1'') []
               True False False None []) =
       [\<lparr>res_type = VpcAttachment, res_name = ''att'',
          res_args = [(''transit_gateway_id'', VStr ''tgw-1''),
                      (''vpc_id'', VStr ''vpc-1''),
                      (''subnet_ids'', VList []),
                      (''dns_support'', VStr ''enable''),
                      (''ipv6_support'', VStr ''disable''),
                      (''appliance_mode_support'', VStr ''disable''),
                      (''tags'', VDict [])]\<rparr>]"
  by (simp add: raises_def create_transit_gateway_vpc_attachment_def Let_def
        enable_disable_def tags_or_def)

text \<open>
  C7, amended. \<^verbatim>\<open>create_transit_gateway_vpc_attachment\<close> does not inspect the list of
  subnet ids: for every list, the empty one included, it returns without an exception,
  declares exactly one attachment and returns it, and the attachment carries the list as
  it was given.
\<close>

theorem create_vpc_attachment_unchecked:
  "\<exists>att. create_transit_gateway_vpc_attachment name tgw_id vpc_id subnet_ids dns ipv6 app tags st
           = (Inr att, st @ [att])
      \<and> res_type att = VpcAttachment \<and> res_name att = name
      \<and> arg att ''subnet_ids'' = Some (VList subnet_ids)"
  by (simp add: create_transit_gateway_vpc_attachment_def arg_def Let_def)

subsection \<open>\<^verbatim>\<open>create_transit_gateway_route\<close>\<close>

text \<open>
  C10 as stated fails in its rule of inclusion. With the empty string as the attachment id
  and \<^verbatim>\<open>blackhole=False\<close>, the id is not \<^verbatim>\<open>None\<close> and the route is no blackhole, yet
  the declared route carries no attachment.
\<close>

theorem tgw_route_attachment_counterexample:
  "supplied (VStr '''')
   \<and> create_transit_gateway_route ''r'' ''10.0.0.0/8'' (VStr ''tgw-rtb-1'') (VStr '''') False [] =
       (Inr \<lparr>res_type = TransitGatewayRoute, res_name = ''r'',
              res_args = [(''destination_cidr_block'', VStr ''10.0.0.0/8''),
                          (''transit_gateway_route_table_id'', VStr ''tgw-rtb-1''),
                          (''blackhole'', VBool False)]\<rparr>,
        [\<lparr>res_type = TransitGatewayRoute, res_name = ''r'',
              res_args = [(''destination_cidr_block'', VStr ''10.0.0.0/8''),
                          (''transit_gateway_route_table_id'', VStr ''tgw-rtb-1''),
                          (''blackhole'', VBool False)]\<rparr>])"
  by (simp add: supplied_def create_transit_gateway_route_def Let_def)

text \<open>
  C10, amended. Every call of \<^verbatim>\<open>create_transit_gateway_route\<close> declares one hub route
  and returns it. With \<^verbatim>\<open>blackhole=True\<close> the route carries no attachment, whatever
  attachment id is passed. In general the attachment id is part of the route exactly when
  it is true in Python's sense (not \<^verbatim>\<open>None\<close> and not empty) and \<^verbatim>\<open>blackhole\<close> is false.
\<close>

theorem tgw_route_attachment_rule:
  "\<exists>r. create_transit_gateway_route name dst rt_id att_id blackhole st = (Inr r, st @ [r])
      \<and> res_type r = TransitGatewayRoute
      \<and> arg r ''blackhole'' = Some (VBool blackhole)
      \<and> (blackhole \<longrightarrow> arg r ''transit_gateway_attachment_id'' = None)
      \<and> arg r ''transit_gateway_attachment_id'' =
          (if truthy att_id \<and> \<not> blackhole then Some att_id else None)"
  by (simp add: create_transit_gateway_route_def arg_def Let_def)

theorem tgw_route_attachment_rule_witness:
  "\<exists>r. create_transit_gateway_route ''r'' ''10.0.0.0/8'' (VStr ''tgw-rtb-1'')
          (VStr ''tgw-attach-1'') True [] = (Inr r, [] @ [r])
      \<and> res_type r = TransitGatewayRoute
      \<and> arg r ''blackhole'' = Some (VBool True)
      \<and> arg r ''transit_gateway_attachment_id'' = None"
  using tgw_route_attachment_rule
      [of "''r''" "''10.0.0.0/8''" "VStr ''tgw-rtb-1''" "VStr ''tgw-attach-1''" True "[]"]
  by simp

subsection \<open>\<^verbatim>\<open>create_tgw_with_vpc_attachments\<close>\<close>

text \<open>
  Each loop appends what it constructs to its result list and to the declared resources.
\<close>

lemma attachments_loop_eq:
  "attachments_loop p tgw tags cfgs acc st =
     (Inr (acc @ map (attachment_decl p tgw tags) cfgs),
      st @ map (attachment_decl p tgw tags) cfgs)"
  by (induction cfgs arbitrary: acc st)
     (simp_all add: create_transit_gateway_vpc_attachment_def attachment_decl_def Let_def)

lemma routes_inner_loop_eq:
  "routes_inner_loop p tgw i src j rest acc st =
     (Inr (acc @ map (\<lambda>e. route_decl p tgw src (snd e))
                   (filter (\<lambda>e. i \<noteq> fst e) (List.enumerate j rest))),
      st @ map (\<lambda>e. route_decl p tgw src (snd e))
                   (filter (\<lambda>e. i \<noteq> fst e) (List.enumerate j rest)))"
proof (induction rest arbitrary: j acc st)
  case Nil
  show ?case by simp
next
  case (Cons dst rest)
  show ?case
  proof (cases "i = j")
    case True
    then show ?thesis
      using Cons.IH [of "Suc j" acc st] by simp
  next
    case False
    then show ?thesis
      using Cons.IH [of "Suc j"]
      by (simp add: add_tgw_route_to_vpc_route_table_def route_decl_def)
  qed
qed

lemma routes_outer_loop_eq:
  "routes_outer_loop p tgw cfgs i rest acc st =
     (Inr (acc @ concat (map (\<lambda>s. map (\<lambda>e. route_decl p tgw (snd s) (snd e))
                   (filter (\<lambda>e. fst s \<noteq> fst e) (List.enumerate 0 cfgs)))
                (List.enumerate i rest))),
      st @ concat (map (\<lambda>s. map (\<lambda>e. route_decl p tgw (snd s) (snd e))
                   (filter (\<lambda>e. fst s \<noteq> fst e) (List.enumerate 0 cfgs)))
                (List.enumerate i rest)))"
  by (induction rest arbitrary: i acc st) (simp_all add: routes_inner_loop_eq)

lemma enumerate_as_map: "List.enumerate 0 xs = map (\<lambda>j. (j, xs ! j)) [0 ..< length xs]"
  by (rule nth_equalityI) (simp_all add: nth_enumerate_eq)

lemma enumerated_routes_eq:
  "concat (map (\<lambda>s. map (\<lambda>e. route_decl p tgw (snd s) (snd e))
                   (filter (\<lambda>e. fst s \<noteq> fst e) (List.enumerate 0 cfgs)))
                (List.enumerate 0 cfgs)) = pair_routes p tgw cfgs"
  by (simp add: enumerate_as_map pair_routes_def filter_map comp_def)

lemma length_filter_neq_all:
  "n \<le> i \<Longrightarrow> length (filter (\<lambda>j. i \<noteq> j) [0 ..< n]) = n"
  by (induction n) simp_all

lemma length_filter_neq:
  "i < n \<Longrightarrow> length (filter (\<lambda>j. i \<noteq> j) [0 ..< n]) = n - 1"
proof (induction n)
  case 0
  then show ?case by simp
next
  case (Suc n)
  show ?case
  proof (cases "i = n")
    case True
    then show ?thesis by (simp add: length_filter_neq_all)
  next
    case False
    with Suc.prems have "i < n" by simp
    with Suc.IH False show ?thesis by simp
  qed
qed

lemma length_pair_routes:
  "length (pair_routes p tgw cfgs) = length cfgs * (length cfgs - 1)"
proof -
  have "map (\<lambda>i. length (filter (\<lambda>j. i \<noteq> j) [0 ..< length cfgs])) [0 ..< length cfgs]
        = map (\<lambda>i. length cfgs - 1) [0 ..< length cfgs]"
    by (rule map_cong) (simp_all add: length_filter_neq)
  then have "sum_list (map (\<lambda>i. length (filter (\<lambda>j. i \<noteq> j) [0 ..< length cfgs]))
                 [0 ..< length cfgs]) = length cfgs * (length cfgs - 1)"
    by (simp only: sum_list_triv length_upt) simp
  then show ?thesis
    by (simp add: pair_routes_def length_concat comp_def)
qed

lemma create_transit_gateway_decl:
  "create_transit_gateway (p @ ''-tgw'') (Some d) 64512 u u True True tags st =
     (Inr (tgw_decl p d u tags), st @ [tgw_decl p d u tags])"
  by (simp add: create_transit_gateway_def tgw_decl_def Let_def)

lemma create_tgw_with_vpc_attachments_eq:
  "create_tgw_with_vpc_attachments p d cfgs u tags st =
     (Inr (tgw_decl p d u tags,
           map (attachment_decl p (tgw_decl p d u tags) tags) cfgs,
           pair_routes p (tgw_decl p d u tags) cfgs),
      st @ [tgw_decl p d u tags]
         @ map (attachment_decl p (tgw_decl p d u tags) tags) cfgs
         @ pair_routes p (tgw_decl p d u tags) cfgs)"
  by (simp add: create_tgw_with_vpc_attachments_def create_transit_gateway_decl
        attachments_loop_eq routes_outer_loop_eq enumerated_routes_eq)

lemma no_tgw_among_attachments:
  "filter (\<lambda>r. res_type r = TransitGateway) (map (attachment_decl p tgw tags) cfgs) = []"
  by (simp add: filter_map comp_def attachment_decl_def)

lemma no_tgw_among_routes:
  "filter (\<lambda>r. res_type r = TransitGateway) (pair_routes p tgw cfgs) = []"
  by (simp add: pair_routes_def filter_concat filter_map comp_def route_decl_def)

text \<open>
  C3. For every list of K configurations, \<^verbatim>\<open>create_tgw_with_vpc_attachments\<close> returns
  without an exception and declares, in this order, one hub, K attachments and the
  routes, and nothing else. The hub is the only transit gateway among them. The
  attachments are those of the configurations in input order. The routes are those of the
  ordered pairs of distinct positions, K * (K - 1) of them (none for K = 1); the route of
  a pair lies in the route table of the source configuration, has the address range of
  the destination configuration as its destination, and the hub as its next hop.
\<close>

theorem create_tgw_with_vpc_attachments_graph:
  "\<exists>tgw attachments routes.
     create_tgw_with_vpc_attachments p d cfgs u tags st =
       (Inr (tgw, attachments, routes), st @ [tgw] @ attachments @ routes)
     \<and> filter (\<lambda>r. res_type r = TransitGateway) ([tgw] @ attachments @ routes) = [tgw]
     \<and> attachments = map (attachment_decl p tgw tags) cfgs
     \<and> length attachments = length cfgs
     \<and> routes = pair_routes p tgw cfgs
     \<and> length routes = length cfgs * (length cfgs - 1)
     \<and> (\<forall>c. res_type (attachment_decl p tgw tags c) = VpcAttachment
            \<and> arg (attachment_decl p tgw tags c) ''transit_gateway_id'' = Some (res_id tgw)
            \<and> arg (attachment_decl p tgw tags c) ''vpc_id'' = Some (vc_vpc_id c)
            \<and> arg (attachment_decl p tgw tags c) ''subnet_ids''
                = Some (VList (vc_subnet_ids c)))
     \<and> (\<forall>src dst. res_type (route_decl p tgw src dst) = Route
            \<and> arg (route_decl p tgw src dst) ''route_table_id''
                = Some (vc_route_table_id src)
            \<and> arg (route_decl p tgw src dst) ''destination_cidr_block''
                = Some (VStr (vc_cidr dst))
            \<and> arg (route_decl p tgw src dst) ''transit_gateway_id'' = Some (res_id tgw))"
proof -
  let ?tgw = "tgw_decl p d u tags"
  have tgw: "res_type ?tgw = TransitGateway"
    by (simp add: tgw_decl_def)
  have run: "create_tgw_with_vpc_attachments p d cfgs u tags st =
       (Inr (?tgw, map (attachment_decl p ?tgw tags) cfgs, pair_routes p ?tgw cfgs),
        st @ [?tgw] @ map (attachment_decl p ?tgw tags) cfgs @ pair_routes p ?tgw cfgs)"
    by (rule create_tgw_with_vpc_attachments_eq)
  have one: "filter (\<lambda>r. res_type r = TransitGateway)
        ([?tgw] @ map (attachment_decl p ?tgw tags) cfgs @ pair_routes p ?tgw cfgs) = [?tgw]"
    by (simp add: tgw no_tgw_among_attachments no_tgw_among_routes)
  have att: "\<forall>c. res_type (attachment_decl p ?tgw tags c) = VpcAttachment
            \<and> arg (attachment_decl p ?tgw tags c) ''transit_gateway_id'' = Some (res_id ?tgw)
            \<and> arg (attachment_decl p ?tgw tags c) ''vpc_id'' = Some (vc_vpc_id c)
            \<and> arg (attachment_decl p ?tgw tags c) ''subnet_ids''
                = Some (VList (vc_subnet_ids c))"
    by (simp add: attachment_decl_def arg_def)
  have rt: "\<forall>src dst. res_type (route_decl p ?tgw src dst) = Route
            \<and> arg (route_decl p ?tgw src dst) ''route_table_id''
                = Some (vc_route_table_id src)
            \<and> arg (route_decl p ?tgw src dst) ''destination_cidr_block''
                = Some (VStr (vc_cidr dst))
            \<and> arg (route_decl p ?tgw src dst) ''transit_gateway_id'' = Some (res_id ?tgw)"
    by (simp add: route_decl_def arg_def)
  have len_a: "length (map (attachment_decl p ?tgw tags) cfgs) = length cfgs"
    by simp
  have len_r: "length (pair_routes p ?tgw cfgs) = length cfgs * (length cfgs - 1)"
    by (rule length_pair_routes)
  show ?thesis
    by (rule exI [of _ ?tgw], rule exI [of _ "map (attachment_decl p ?tgw tags) cfgs"],
        rule exI [of _ "pair_routes p ?tgw cfgs"])
       (intro conjI run one att rt refl len_a len_r)
qed

theorem create_tgw_with_vpc_attachments_graph_witness:
  "(\<exists>tgw attachments routes.
      create_tgw_with_vpc_attachments ''hub'' ''two networks''
        [\<lparr>vc_name = ''lab'', vc_vpc_id = VStr ''vpc-lab'',
           vc_subnet_ids = [VStr ''subnet-a'', VStr ''subnet-b''],
           vc_cidr = ''10.200.0.0/16'', vc_route_table_id = VStr ''rtb-lab''\<rparr>,
         \<lparr>vc_name = ''dev'', vc_vpc_id = VStr ''vpc-dev'',
           vc_subnet_ids = [VStr ''subnet-c'', VStr ''subnet-d''],
           vc_cidr = ''10.201.0.0/16'', vc_route_table_id = VStr ''rtb-dev''\<rparr>]
        True None [] = (Inr (tgw, attachments, routes), [] @ [tgw] @ attachments @ routes)
      \<and> map res_name attachments = [''hub-lab-attachment'', ''hub-dev-attachment'']
      \<and> map res_name routes = [''hub-lab-to-dev'', ''hub-dev-to-lab'']
      \<and> map (\<lambda>r. arg r ''route_table_id'') routes
          = [Some (VStr ''rtb-lab''), Some (VStr ''rtb-dev'')]
      \<and> map (\<lambda>r. arg r ''destination_cidr_block'') routes
          = [Some (VStr ''10.201.0.0/16''), Some (VStr ''10.200.0.0/16'')])
   \<and> (\<exists>tgw attachments routes.
      create_tgw_with_vpc_attachments ''hub'' ''one network''
        [\<lparr>vc_name = ''lab'', vc_vpc_id = VStr ''vpc-lab'',
           vc_subnet_ids = [VStr ''subnet-a'', VStr ''subnet-b''],
           vc_cidr = ''10.200.0.0/16'', vc_route_table_id = VStr ''rtb-lab''\<rparr>]
        True None [] = (Inr (tgw, attachments, routes), [] @ [tgw] @ attachments @ routes)
      \<and> length attachments = 1 \<and> routes = [])"
  using create_tgw_with_vpc_attachments_graph [of "''hub''" "''two networks''"
      "[\<lparr>vc_name = ''lab'', vc_vpc_id = VStr ''vpc-lab'',
           vc_subnet_ids = [VStr ''subnet-a'', VStr ''subnet-b''],
           vc_cidr = ''10.200.0.0/16'', vc_route_table_id = VStr ''rtb-lab''\<rparr>,
         \<lparr>vc_name = ''dev'', vc_vpc_id = VStr ''vpc-dev'',
           vc_subnet_ids = [VStr ''subnet-c'', VStr ''subnet-d''],
           vc_cidr = ''10.201.0.0/16'', vc_route_table_id = VStr ''rtb-dev''\<rparr>]"
      True None "[]"]
    create_tgw_with_vpc_attachments_graph [of "''hub''" "''one network''"
      "[\<lparr>vc_name = ''lab'', vc_vpc_id = VStr ''vpc-lab'',
           vc_subnet_ids = [VStr ''subnet-a'', VStr ''subnet-b''],
           vc_cidr = ''10.200.0.0/16'', vc_route_table_id = VStr ''rtb-lab''\<rparr>]"
      True None "[]"]
  by (auto simp: pair_routes_def route_decl_def attachment_decl_def arg_def)

end
